theory Spec2Isabelle
  imports Main "HOL-Library.Word"
begin

unbundle bit_operations_syntax

section \<open>X.509 public keys (x509\_key.cpp): data model\<close>

text \<open>
  The file \<^verbatim>\<open>x509_key.cpp\<close> orchestrates collaborators that live in other files of
  the library: the ASN.1 engine (\<^verbatim>\<open>DER_Encoder\<close>, \<^verbatim>\<open>BER_Decoder\<close>), the PEM
  transform, the hash used by \<^verbatim>\<open>Hash_Filter\<close>, the OID registry, the key constructors
  and the per-algorithm encoder and decoder objects. Each of them is a parameter of the
  model (a record of functions); the functions of \<^verbatim>\<open>x509_key.cpp\<close> itself are
  translated call by call.
\<close>

type_synonym byte = "8 word"
type_synonym bytes = "byte list"
type_synonym u32bit = "32 word"
type_synonym u64bit = "64 word"

text \<open>
  Exceptions. The source throws \<^verbatim>\<open>Internal_Error\<close>, \<^verbatim>\<open>Encoding_Error\<close> and
  \<^verbatim>\<open>Decoding_Error\<close>, each with a message. \<open>Decoding_Error\<close> stands for that class
  and the classes derived from it (what \<^verbatim>\<open>catch(Decoding_Error)\<close> catches);
  \<open>Other_Exception\<close> is any exception of a collaborator outside these three classes.
\<close>

datatype exn =
    Decoding_Error string
  | Encoding_Error string
  | Internal_Error string
  | Other_Exception string

text \<open>Sequencing of calls that may throw: the first exception ends the sequence.\<close>

fun and_then :: "exn + 'a \<Rightarrow> ('a \<Rightarrow> exn + 'b) \<Rightarrow> exn + 'b" where
  "and_then (Inl e) f = Inl e"
| "and_then (Inr x) f = f x"

type_synonym OID = "nat list"

record AlgorithmIdentifier =
  oid :: OID
  parameters :: bytes

datatype ASN1_Tag = SEQUENCE | BIT_STRING

datatype X509_Encoding = RAW_BER | PEM

text \<open>
  \<^verbatim>\<open>X509_Encoder\<close>: what the encoder object of a key answers to \<^verbatim>\<open>alg_id()\<close> and
  \<^verbatim>\<open>key_bits()\<close>.
\<close>

record X509_Encoder =
  alg_id :: AlgorithmIdentifier
  key_bits :: bytes

text \<open>
  \<^verbatim>\<open>X509_Decoder\<close>: the two setters \<^verbatim>\<open>alg_id(const AlgorithmIdentifier&)\<close> and
  \<^verbatim>\<open>key_bits(const MemoryRegion<byte>&)\<close>. They mutate the key the decoder belongs
  to (here: its state \<open>'s\<close>) and may throw.
\<close>

record 's X509_Decoder =
  decoder_alg_id :: "AlgorithmIdentifier \<Rightarrow> 's \<Rightarrow> exn + 's"
  decoder_key_bits :: "bytes \<Rightarrow> 's \<Rightarrow> exn + 's"

text \<open>
  \<^verbatim>\<open>X509_PublicKey\<close>: a key object. Its class fixes the algorithm name, which of the
  four capability classes it derives from (the \<^verbatim>\<open>dynamic_cast\<close>s of
  \<^verbatim>\<open>find_constraints\<close>) and whether \<^verbatim>\<open>x509_encoder()\<close> and \<^verbatim>\<open>x509_decoder()\<close>
  return an object or null (\<open>None\<close>); \<open>key_state\<close> is the key material, which the
  decoder sets and the encoder reads.
\<close>

record 's X509_PublicKey =
  algo_name :: string
  is_PK_Encrypting_Key :: bool
  is_PK_Key_Agreement_Key :: bool
  is_PK_Verifying_wo_MR_Key :: bool
  is_PK_Verifying_with_MR_Key :: bool
  key_state :: 's
  x509_encoder :: "('s \<Rightarrow> X509_Encoder) option"
  x509_decoder :: "'s X509_Decoder option"

section \<open>Key constraints\<close>

text \<open>
  The enumeration \<^verbatim>\<open>Key_Constraints\<close> is declared in another header; the four
  enumerators that \<^verbatim>\<open>find_constraints\<close> uses are parameters. A constraint value is
  an unsigned 32-bit mask (\<^verbatim>\<open>u32bit constraints\<close>).
\<close>

type_synonym Key_Constraints = u32bit

record Key_Constraints_enum =
  DIGITAL_SIGNATURE :: Key_Constraints
  NON_REPUDIATION :: Key_Constraints
  KEY_ENCIPHERMENT :: Key_Constraints
  KEY_AGREEMENT :: Key_Constraints

text \<open>\<^verbatim>\<open>X509::find_constraints\<close> (lines 176 to 196).\<close>

definition find_constraints ::
  "Key_Constraints_enum \<Rightarrow> 's X509_PublicKey \<Rightarrow> Key_Constraints \<Rightarrow> Key_Constraints" where
  "find_constraints F pub_key limits =
     (let constraints = 0;
          constraints = (if is_PK_Encrypting_Key pub_key
                         then constraints OR KEY_ENCIPHERMENT F else constraints);
          constraints = (if is_PK_Key_Agreement_Key pub_key
                         then constraints OR KEY_AGREEMENT F else constraints);
          constraints = (if is_PK_Verifying_wo_MR_Key pub_key \<or> is_PK_Verifying_with_MR_Key pub_key
                         then constraints OR (DIGITAL_SIGNATURE F OR NON_REPUDIATION F)
                         else constraints);
          constraints = (if limits \<noteq> 0 then constraints AND limits else constraints)
      in constraints)"

text \<open>
  The enumerators are flags of one bitmask: none is zero and no two share a bit. This is
  what the theorems that read single flags off a mask assume of the parameter.
\<close>

definition distinct_flags :: "Key_Constraints_enum \<Rightarrow> bool" where
  "distinct_flags F =
     (DIGITAL_SIGNATURE F \<noteq> 0 \<and> NON_REPUDIATION F \<noteq> 0 \<and>
      KEY_ENCIPHERMENT F \<noteq> 0 \<and> KEY_AGREEMENT F \<noteq> 0 \<and>
      DIGITAL_SIGNATURE F AND NON_REPUDIATION F = 0 \<and>
      DIGITAL_SIGNATURE F AND KEY_ENCIPHERMENT F = 0 \<and>
      DIGITAL_SIGNATURE F AND KEY_AGREEMENT F = 0 \<and>
      NON_REPUDIATION F AND KEY_ENCIPHERMENT F = 0 \<and>
      NON_REPUDIATION F AND KEY_AGREEMENT F = 0 \<and>
      KEY_ENCIPHERMENT F AND KEY_AGREEMENT F = 0)"

text \<open>A flag (or a set of flags) \<open>f\<close> is set in the mask \<open>m\<close>.\<close>

definition has_flag :: "Key_Constraints \<Rightarrow> Key_Constraints \<Rightarrow> bool" where
  "has_flag m f = (m AND f = f)"

section \<open>The key identifier\<close>

text \<open>
  The hash behind \<^verbatim>\<open>Hash_Filter("SHA-1", 8)\<close> is a parameter: a context obtained by
  name, updated by each write, and finalised into a digest.
\<close>

record 'h Hash_ops =
  get_hash :: "string \<Rightarrow> 'h"
  hash_update :: "'h \<Rightarrow> bytes \<Rightarrow> 'h"
  hash_final :: "'h \<Rightarrow> bytes"

text \<open>\<^verbatim>\<open>pipe.write(const std::string&)\<close> writes the characters of the string as bytes.\<close>

definition bytes_of_string :: "string \<Rightarrow> bytes" where
  "bytes_of_string s = map of_char s"

text \<open>
  Modelled from the spec: \<^verbatim>\<open>Hash_Filter\<close> and \<^verbatim>\<open>Pipe\<close> (filters.h, pipe.h) are not in
  \<^verbatim>\<open>x509_key.cpp\<close>. Per section 4.2 of the specification the writes of one message go
  into one hashing context in order, and at the end of the message the filter emits the
  digest truncated to its first \<open>n\<close> bytes; \<^verbatim>\<open>read_all\<close> returns what was emitted.
\<close>

definition Hash_Filter_write :: "'h Hash_ops \<Rightarrow> 'h \<Rightarrow> bytes \<Rightarrow> 'h" where
  "Hash_Filter_write H ctx input = hash_update H ctx input"

definition Hash_Filter_end_msg :: "'h Hash_ops \<Rightarrow> nat \<Rightarrow> 'h \<Rightarrow> bytes" where
  "Hash_Filter_end_msg H n ctx = take n (hash_final H ctx)"

text \<open>
  \<^verbatim>\<open>X509_PublicKey::key_id\<close> (lines 21 to 43). The loop runs \<open>j\<close> over \<open>0, ..., 7\<close>;
  the output has eight bytes when it is reached.
\<close>

definition key_id :: "'h Hash_ops \<Rightarrow> 's X509_PublicKey \<Rightarrow> exn + u64bit" where
  "key_id H key =
     (case x509_encoder key of
        None \<Rightarrow> Inl (Internal_Error ''X509_PublicKey:key_id: No encoder found'')
      | Some enc \<Rightarrow>
          (let encoder = enc (key_state key);
               pipe = get_hash H ''SHA-1'';
               pipe = Hash_Filter_write H pipe (bytes_of_string (algo_name key));
               pipe = Hash_Filter_write H pipe (parameters (alg_id encoder));
               pipe = Hash_Filter_write H pipe (key_bits encoder);
               output = Hash_Filter_end_msg H 8 pipe
           in if length output \<noteq> 8
              then Inl (Internal_Error ''X509_PublicKey::key_id: Incorrect output size'')
              else Inr (foldl (\<lambda>id j. push_bit 8 id OR ucast (output ! j)) 0 [0..<8])))"

text \<open>The value of a byte string read as a big-endian unsigned number.\<close>

definition big_endian :: "bytes \<Rightarrow> nat" where
  "big_endian bs = foldl (\<lambda>v b. 256 * v + unat b) 0 bs"

section \<open>Encoding\<close>

text \<open>
  The DER encoder is a parameter: a fresh encoder and the operations of the call chain
  of \<^verbatim>\<open>X509::encode\<close>, over an encoder state \<open>'d\<close>.
\<close>

record 'd DER_ops =
  DER_Encoder :: 'd
  der_start_cons :: "ASN1_Tag \<Rightarrow> 'd \<Rightarrow> 'd"
  der_encode_alg_id :: "AlgorithmIdentifier \<Rightarrow> 'd \<Rightarrow> 'd"
  der_encode_bytes :: "bytes \<Rightarrow> ASN1_Tag \<Rightarrow> 'd \<Rightarrow> 'd"
  der_end_cons :: "'d \<Rightarrow> 'd"
  der_get_contents :: "'d \<Rightarrow> bytes"

text \<open>
  The PEM transform is a parameter: \<open>PEM_encode_label\<close> is \<^verbatim>\<open>PEM_Code::encode\<close>,
  \<open>PEM_matches\<close> is \<^verbatim>\<open>PEM_Code::matches\<close>, which only peeks at the source, and
  \<open>PEM_decode_check_label\<close> is \<^verbatim>\<open>PEM_Code::decode_check_label\<close>, which strips the
  framing or throws.
\<close>

record PEM_Code =
  PEM_encode_label :: "bytes \<Rightarrow> string \<Rightarrow> string"
  PEM_matches :: "bytes \<Rightarrow> bool"
  PEM_decode_check_label :: "bytes \<Rightarrow> string \<Rightarrow> exn + bytes"

text \<open>
  The DER bytes built by the chain \<^verbatim>\<open>DER_Encoder().start_cons(SEQUENCE)
  .encode(alg_id).encode(key_bits, BIT_STRING).end_cons().get_contents()\<close>.
\<close>

definition der_SubjectPublicKeyInfo :: "'d DER_ops \<Rightarrow> X509_Encoder \<Rightarrow> bytes" where
  "der_SubjectPublicKeyInfo D encoder =
     der_get_contents D
       (der_end_cons D
         (der_encode_bytes D (key_bits encoder) BIT_STRING
           (der_encode_alg_id D (alg_id encoder)
             (der_start_cons D SEQUENCE (DER_Encoder D)))))"

text \<open>
  \<^verbatim>\<open>X509::encode\<close> (lines 50 to 68). The pipe is the bytes written to it so far; the
  result is the pipe after the write.
\<close>

definition encode ::
  "'d DER_ops \<Rightarrow> PEM_Code \<Rightarrow> 's X509_PublicKey \<Rightarrow> bytes \<Rightarrow> X509_Encoding \<Rightarrow> exn + bytes" where
  "encode D P key pipe encoding =
     (case x509_encoder key of
        None \<Rightarrow> Inl (Encoding_Error ''X509::encode: Key does not support encoding'')
      | Some enc \<Rightarrow>
          (let der = der_SubjectPublicKeyInfo D (enc (key_state key))
           in if encoding = PEM
              then Inr (pipe @ bytes_of_string (PEM_encode_label P der ''PUBLIC KEY''))
              else Inr (pipe @ der)))"

text \<open>\<^verbatim>\<open>X509::PEM_encode\<close> (lines 73 to 80); the result is the text as bytes.\<close>

definition PEM_encode :: "'d DER_ops \<Rightarrow> PEM_Code \<Rightarrow> 's X509_PublicKey \<Rightarrow> exn + bytes" where
  "PEM_encode D P key = encode D P key [] PEM"

section \<open>Decoding\<close>

text \<open>
  The BER decoder is a parameter. A decoder is the data its source has left.
  \<open>ber_start_cons\<close> reads the header of a constructed object and returns its contents
  and what follows the object; the two \<open>decode\<close> operations return the decoded field
  and the data after it. \<open>maybe_BER\<close> (\<^verbatim>\<open>ASN1::maybe_BER\<close>) only peeks.
\<close>

record BER_ops =
  maybe_BER :: "bytes \<Rightarrow> bool"
  ber_start_cons :: "ASN1_Tag \<Rightarrow> bytes \<Rightarrow> exn + bytes \<times> bytes"
  ber_decode_alg_id :: "bytes \<Rightarrow> exn + AlgorithmIdentifier \<times> bytes"
  ber_decode_bytes :: "ASN1_Tag \<Rightarrow> bytes \<Rightarrow> exn + bytes \<times> bytes"

text \<open>
  Modelled from the spec: \<^verbatim>\<open>BER_Decoder::verify_end\<close> and \<^verbatim>\<open>BER_Decoder::end_cons\<close>
  (ber\_dec.cpp) are not in \<^verbatim>\<open>x509_key.cpp\<close>. Per section 4.1, step 3, and section 8
  of the specification, \<open>verify_end\<close> requires that no bytes remain in the sequence
  after the last field and signals a decoding failure otherwise; \<open>end_cons\<close> leaves the
  sequence and returns to the enclosing source.
\<close>

definition verify_end :: "bytes \<Rightarrow> exn + unit" where
  "verify_end remaining =
     (if remaining \<noteq> [] then Inl (Decoding_Error ''verify_end: data remains'')
      else Inr ())"

definition end_cons :: "bytes \<Rightarrow> bytes \<Rightarrow> exn + bytes" where
  "end_cons remaining enclosing = Inr enclosing"

text \<open>
  The chain \<^verbatim>\<open>BER_Decoder(source).start_cons(SEQUENCE).decode(alg_id)
  .decode(key_bits, BIT_STRING).verify_end().end_cons()\<close>, which both branches of
  \<^verbatim>\<open>load_key\<close> run. The decoder that \<open>end_cons\<close> returns is dropped.
\<close>

definition decode_SubjectPublicKeyInfo :: "BER_ops \<Rightarrow> bytes \<Rightarrow> exn + AlgorithmIdentifier \<times> bytes" where
  "decode_SubjectPublicKeyInfo B source =
     and_then (ber_start_cons B SEQUENCE source) (\<lambda>(contents, after).
     and_then (ber_decode_alg_id B contents) (\<lambda>(alg_id, rest1).
     and_then (ber_decode_bytes B BIT_STRING rest1) (\<lambda>(key_bits, rest2).
     and_then (verify_end rest2) (\<lambda>_.
     and_then (end_cons rest2 after) (\<lambda>_.
     Inr (alg_id, key_bits))))))"

text \<open>
  The registry: \<^verbatim>\<open>OIDS::lookup\<close> (the empty string when the OID has no name),
  \<^verbatim>\<open>OID::as_string\<close>, and \<^verbatim>\<open>get_public_key\<close> (null, here \<open>None\<close>, when the name has
  no constructor).
\<close>

record 's Registry =
  OIDS_lookup :: "OID \<Rightarrow> string"
  OID_as_string :: "OID \<Rightarrow> string"
  get_public_key :: "string \<Rightarrow> 's X509_PublicKey option"

text \<open>
  Lines 91 to 112 of \<^verbatim>\<open>X509::load_key(DataSource&)\<close>: the choice between the binary
  and the PEM branch, and the decoding of the structure in either.
\<close>

definition read_SubjectPublicKeyInfo ::
  "BER_ops \<Rightarrow> PEM_Code \<Rightarrow> bytes \<Rightarrow> exn + AlgorithmIdentifier \<times> bytes" where
  "read_SubjectPublicKeyInfo B P source =
     (if maybe_BER B source \<and> \<not> PEM_matches P source
      then decode_SubjectPublicKeyInfo B source
      else and_then (PEM_decode_check_label P source ''PUBLIC KEY'')
             (\<lambda>ber. decode_SubjectPublicKeyInfo B ber))"

text \<open>The body of the \<^verbatim>\<open>try\<close> block of \<^verbatim>\<open>X509::load_key(DataSource&)\<close> (lines 88 to 134).\<close>

definition load_key_try ::
  "BER_ops \<Rightarrow> PEM_Code \<Rightarrow> 's Registry \<Rightarrow> bytes \<Rightarrow> exn + 's X509_PublicKey" where
  "load_key_try B P R source =
     and_then (read_SubjectPublicKeyInfo B P source)
       (\<lambda>(alg_id, key_bits).
          if key_bits = [] then Inl (Decoding_Error ''X.509 public key decoding failed'')
          else
            (let alg_name = OIDS_lookup R (oid alg_id)
             in if alg_name = []
                then Inl (Decoding_Error (''Unknown algorithm OID: '' @ OID_as_string R (oid alg_id)))
                else
                  (case get_public_key R alg_name of
                     None \<Rightarrow>
                       Inl (Decoding_Error (''Unknown PK algorithm/OID: '' @ alg_name @ '', '' @
                                            OID_as_string R (oid alg_id)))
                   | Some key_obj \<Rightarrow>
                       (case x509_decoder key_obj of
                          None \<Rightarrow> Inl (Decoding_Error ''Key does not support X.509 decoding'')
                        | Some decoder \<Rightarrow>
                            and_then (decoder_alg_id decoder alg_id (key_state key_obj)) (\<lambda>s1.
                            and_then (decoder_key_bits decoder key_bits s1) (\<lambda>s2.
                            Inr (key_obj\<lparr>key_state := s2\<rparr>)))))))"

text \<open>
  \<^verbatim>\<open>X509::load_key(DataSource&)\<close> (lines 85 to 140): the \<^verbatim>\<open>try\<close> block under
  \<^verbatim>\<open>catch(Decoding_Error)\<close>. Exceptions of other classes pass through.
\<close>

definition load_key ::
  "BER_ops \<Rightarrow> PEM_Code \<Rightarrow> 's Registry \<Rightarrow> bytes \<Rightarrow> exn + 's X509_PublicKey" where
  "load_key B P R source =
     (case load_key_try B P R source of
        Inl (Decoding_Error m) \<Rightarrow> Inl (Decoding_Error ''X.509 public key decoding failed'')
      | Inl e \<Rightarrow> Inl e
      | Inr key \<Rightarrow> Inr key)"

text \<open>\<^verbatim>\<open>X509::load_key(const MemoryRegion<byte>&)\<close> (lines 154 to 158).\<close>

definition load_key_mem ::
  "BER_ops \<Rightarrow> PEM_Code \<Rightarrow> 's Registry \<Rightarrow> bytes \<Rightarrow> exn + 's X509_PublicKey" where
  "load_key_mem B P R mem = load_key B P R mem"


section \<open>An instance of the collaborators\<close>

text \<open>
  A small, executable instance of every parameter, on which the functions above can be
  evaluated: the key-usage bits of X.509 as flag values, a hash that pads its input,
  a DER encoder and BER decoder for one-byte tags and lengths, a PEM framing without
  base64, a registry of three names, and a key class whose state is its parameters and
  key bits.
\<close>

definition ex_flags :: Key_Constraints_enum where
  "ex_flags = \<lparr>DIGITAL_SIGNATURE = 32768, NON_REPUDIATION = 16384,
               KEY_ENCIPHERMENT = 8192, KEY_AGREEMENT = 2048\<rparr>"

definition ex_hash :: "bytes Hash_ops" where
  "ex_hash = \<lparr>get_hash = (\<lambda>name. []), hash_update = (\<lambda>ctx input. ctx @ input),
              hash_final = (\<lambda>ctx. ctx @ replicate 20 0)\<rparr>"

definition ex_short_hash :: "bytes Hash_ops" where
  "ex_short_hash = \<lparr>get_hash = (\<lambda>name. []), hash_update = (\<lambda>ctx input. ctx @ input),
              hash_final = (\<lambda>ctx. take 4 (ctx @ replicate 20 0))\<rparr>"

fun ex_tag :: "ASN1_Tag \<Rightarrow> byte" where
  "ex_tag SEQUENCE = 0x30"
| "ex_tag BIT_STRING = 0x03"

definition ex_tlv :: "byte \<Rightarrow> bytes \<Rightarrow> bytes" where
  "ex_tlv t content = t # of_nat (length content) # content"

fun ex_der_end_cons :: "(byte \<times> bytes) list \<Rightarrow> (byte \<times> bytes) list" where
  "ex_der_end_cons ((t, inner) # (t', outer) # st) = (t', outer @ ex_tlv t inner) # st"
| "ex_der_end_cons st = st"

fun ex_der_append :: "bytes \<Rightarrow> (byte \<times> bytes) list \<Rightarrow> (byte \<times> bytes) list" where
  "ex_der_append bs ((t, cur) # st) = (t, cur @ bs) # st"
| "ex_der_append bs [] = []"

fun ex_der_contents :: "(byte \<times> bytes) list \<Rightarrow> bytes" where
  "ex_der_contents ((t, cur) # st) = cur"
| "ex_der_contents [] = []"

definition ex_alg_id_bytes :: "AlgorithmIdentifier \<Rightarrow> bytes" where
  "ex_alg_id_bytes a = ex_tlv 0x30 (ex_tlv 0x06 (map of_nat (oid a)) @ parameters a)"

definition ex_spki :: "OID \<Rightarrow> bytes \<Rightarrow> bytes \<Rightarrow> bytes" where
  "ex_spki obj params bits =
     ex_tlv 0x30 (ex_alg_id_bytes \<lparr>oid = obj, parameters = params\<rparr> @ ex_tlv 0x03 (0 # bits))"

definition ex_DER :: "(byte \<times> bytes) list DER_ops" where
  "ex_DER = \<lparr>DER_Encoder = [(0, [])],
             der_start_cons = (\<lambda>tag st. (ex_tag tag, []) # st),
             der_encode_alg_id = (\<lambda>a st. ex_der_append (ex_alg_id_bytes a) st),
             der_encode_bytes = (\<lambda>bs tag st. ex_der_append (ex_tlv (ex_tag tag) (0 # bs)) st),
             der_end_cons = ex_der_end_cons,
             der_get_contents = ex_der_contents\<rparr>"

fun ex_get_tlv :: "byte \<Rightarrow> bytes \<Rightarrow> exn + bytes \<times> bytes" where
  "ex_get_tlv t (t' # n # rest) =
     (if t' = t \<and> unat n \<le> length rest then Inr (take (unat n) rest, drop (unat n) rest)
      else Inl (Decoding_Error ''BER: unexpected tag or length''))"
| "ex_get_tlv t rest = Inl (Decoding_Error ''BER: truncated object'')"

definition ex_decode_alg_id :: "bytes \<Rightarrow> exn + AlgorithmIdentifier \<times> bytes" where
  "ex_decode_alg_id src =
     and_then (ex_get_tlv 0x30 src) (\<lambda>(contents, after).
     and_then (ex_get_tlv 0x06 contents) (\<lambda>(o_bytes, params).
     Inr (\<lparr>oid = map unat o_bytes, parameters = params\<rparr>, after)))"

definition ex_decode_bytes :: "ASN1_Tag \<Rightarrow> bytes \<Rightarrow> exn + bytes \<times> bytes" where
  "ex_decode_bytes tag src =
     and_then (ex_get_tlv (ex_tag tag) src) (\<lambda>(contents, after).
       case contents of
         [] \<Rightarrow> Inl (Decoding_Error ''BER: bad bit string'')
       | unused # bits \<Rightarrow> Inr (bits, after))"

definition ex_BER :: BER_ops where
  "ex_BER = \<lparr>maybe_BER = (\<lambda>src. case src of [] \<Rightarrow> False | b # _ \<Rightarrow> b = 0x30),
             ber_start_cons = (\<lambda>tag src. ex_get_tlv (ex_tag tag) src),
             ber_decode_alg_id = ex_decode_alg_id,
             ber_decode_bytes = ex_decode_bytes\<rparr>"

definition ex_pem_head :: "string \<Rightarrow> bytes" where
  "ex_pem_head label = bytes_of_string (''-----BEGIN '' @ label @ ''-----'')"

definition ex_PEM :: PEM_Code where
  "ex_PEM = \<lparr>PEM_encode_label = (\<lambda>der label. ''-----BEGIN '' @ label @ ''-----'' @ map (\<lambda>b. char_of (unat b)) der),
             PEM_matches = (\<lambda>src. take 5 src = bytes_of_string ''-----''),
             PEM_decode_check_label = (\<lambda>src label.
               if take (length (ex_pem_head label)) src = ex_pem_head label
               then Inr (drop (length (ex_pem_head label)) src)
               else Inl (Decoding_Error ''PEM: no framing with the expected label''))\<rparr>"

type_synonym ex_state = "bytes \<times> bytes"

definition ex_encoder :: "ex_state \<Rightarrow> X509_Encoder" where
  "ex_encoder s = \<lparr>alg_id = \<lparr>oid = [1, 2, 3], parameters = fst s\<rparr>, key_bits = snd s\<rparr>"


definition ex_decoder :: "ex_state X509_Decoder" where
  "ex_decoder = \<lparr>decoder_alg_id = (\<lambda>a s.
                    if parameters a = [0xFF] then Inl (Decoding_Error ''bad parameters'')
                    else Inr (parameters a, snd s)),
                 decoder_key_bits = (\<lambda>bits s.
                    if bits = [0xFF] then Inl (Decoding_Error ''bad key material'')
                    else Inr (fst s, bits))\<rparr>"

text \<open>
  Variants of the instance: a BER decoder and a key decoder that report what they reject
  with an exception outside the \<open>Decoding_Error\<close> class.
\<close>

definition ex_BER_other :: BER_ops where
  "ex_BER_other = ex_BER\<lparr>ber_decode_bytes := (\<lambda>tag src.
      case ex_decode_bytes tag src of
        Inl (Decoding_Error m) \<Rightarrow> Inl (Other_Exception m)
      | r \<Rightarrow> r)\<rparr>"

definition ex_decoder_other :: "ex_state X509_Decoder" where
  "ex_decoder_other = \<lparr>decoder_alg_id = (\<lambda>a s. Inr (parameters a, snd s)),
                 decoder_key_bits = (\<lambda>bits s.
                    if bits = [0xFF] then Inl (Other_Exception ''bad key material'')
                    else Inr (fst s, bits))\<rparr>"

definition ex_key :: "bytes \<Rightarrow> bytes \<Rightarrow> ex_state X509_PublicKey" where
  "ex_key params bits =
     \<lparr>algo_name = ''EX'', is_PK_Encrypting_Key = True, is_PK_Key_Agreement_Key = False,
      is_PK_Verifying_wo_MR_Key = True, is_PK_Verifying_with_MR_Key = False,
      key_state = (params, bits), x509_encoder = Some ex_encoder, x509_decoder = Some ex_decoder\<rparr>"

definition ex_registry :: "ex_state Registry" where
  "ex_registry =
     \<lparr>OIDS_lookup = (\<lambda>oid. if oid = [1, 2, 3] then ''EX'' else if oid = [1, 2, 4] then ''EX2''
                           else if oid = [1, 2, 5] then ''EX3'' else []),
      OID_as_string = (\<lambda>oid. concat (map (\<lambda>n. ''.'' @ replicate n (CHR ''I'')) oid)),
      get_public_key = (\<lambda>name. if name = ''EX'' then Some (ex_key [] [])
                          else if name = ''EX3'' then Some ((ex_key [] []) \<lparr>algo_name := ''EX3'', x509_decoder := None\<rparr>)
                          else None)\<rparr>"

text \<open>
  Variants of the registry: one whose key for \<open>EX\<close> has the decoder above, and one
  whose constructor for \<open>EX\<close> builds a key of another algorithm name.
\<close>

definition ex_registry_other :: "ex_state Registry" where
  "ex_registry_other = ex_registry\<lparr>get_public_key := (\<lambda>name.
      if name = ''EX'' then Some ((ex_key [] [])\<lparr>x509_decoder := Some ex_decoder_other\<rparr>)
      else None)\<rparr>"


section \<open>Facts used by several results\<close>

lemmas ex_defs =
  ex_flags_def ex_hash_def ex_short_hash_def ex_tlv_def ex_alg_id_bytes_def ex_spki_def ex_DER_def
  ex_decode_alg_id_def ex_decode_bytes_def ex_BER_def ex_pem_head_def ex_PEM_def
  ex_encoder_def ex_decoder_def ex_key_def ex_registry_def bytes_of_string_def

lemmas decode_defs =
  load_key_def load_key_try_def read_SubjectPublicKeyInfo_def decode_SubjectPublicKeyInfo_def
  verify_end_def end_cons_def

lemmas key_id_defs = key_id_def Hash_Filter_write_def Hash_Filter_end_msg_def

lemma byte_char_byte: "of_char (char_of (unat (b :: byte))) = b"
proof -
  have "unat b < 256" using unsigned_less [of b] by simp
  then have "(of_char (char_of (unat b)) :: nat) = unat b"
    by (simp add: of_char_of)
  then have "(of_nat (of_char (char_of (unat b)) :: nat) :: byte) = of_nat (unat b)"
    by simp
  then show ?thesis by (simp only: of_nat_of_char of_nat_unat ucast_id)
qed

lemma ex_PEM_encode_bytes:
  "bytes_of_string (PEM_encode_label ex_PEM der label) = ex_pem_head label @ der"
proof -
  have "map (\<lambda>b. of_char (char_of (unat b))) der = der"
    by (simp add: byte_char_byte)
  then show ?thesis
    by (simp add: ex_PEM_def ex_pem_head_def bytes_of_string_def o_def)
qed

lemma find_constraints_unlimited:
  "find_constraints F k 0 =
     (if is_PK_Encrypting_Key k then KEY_ENCIPHERMENT F else 0) OR
     (if is_PK_Key_Agreement_Key k then KEY_AGREEMENT F else 0) OR
     (if is_PK_Verifying_wo_MR_Key k \<or> is_PK_Verifying_with_MR_Key k
      then DIGITAL_SIGNATURE F OR NON_REPUDIATION F else 0)"
  by (simp add: find_constraints_def Let_def or.assoc)

lemma find_constraints_limited:
  "limits \<noteq> 0 \<Longrightarrow> find_constraints F k limits = find_constraints F k 0 AND limits"
  by (simp add: find_constraints_def Let_def)

lemma has_flag_or3:
  "has_flag (a OR b OR c) f = ((a AND f) OR (b AND f) OR (c AND f) = f)"
  by (simp add: has_flag_def bit.conj_disj_distrib2)

lemma if_flag_and:
  "(if c then x else 0) AND f = (if c then x AND f else (0 :: Key_Constraints))"
  by simp

lemma ex_flags_distinct: "distinct_flags ex_flags"
  by (simp add: distinct_flags_def ex_flags_def)

section \<open>Properties of the constraint resolver\<close>

text \<open>
  Claim C2. With no limit (\<open>limits = 0\<close>) the result of \<open>find_constraints\<close> is the
  mask computed from the capabilities: it starts empty, gets \<open>KEY_ENCIPHERMENT\<close> for an
  encrypting key, \<open>KEY_AGREEMENT\<close> for a key-agreement key, and both
  \<open>DIGITAL_SIGNATURE\<close> and \<open>NON_REPUDIATION\<close> for a key that verifies with or without
  message recovery. When the four enumerators are distinct flags, each flag is set
  exactly when its capability is present, and a key with no capability gets the empty
  mask; a key that only encrypts, under a limit that allows \<open>KEY_ENCIPHERMENT\<close>, gets
  exactly that flag. The function is total: it returns a mask for every key and every
  limit.
\<close>

theorem find_constraints_capabilities:
  assumes "distinct_flags F"
  shows "find_constraints F k 0 =
           (if is_PK_Encrypting_Key k then KEY_ENCIPHERMENT F else 0) OR
           (if is_PK_Key_Agreement_Key k then KEY_AGREEMENT F else 0) OR
           (if is_PK_Verifying_wo_MR_Key k \<or> is_PK_Verifying_with_MR_Key k
            then DIGITAL_SIGNATURE F OR NON_REPUDIATION F else 0)
       \<and> has_flag (find_constraints F k 0) (KEY_ENCIPHERMENT F) = is_PK_Encrypting_Key k
       \<and> has_flag (find_constraints F k 0) (KEY_AGREEMENT F) = is_PK_Key_Agreement_Key k
       \<and> has_flag (find_constraints F k 0) (DIGITAL_SIGNATURE F) =
           (is_PK_Verifying_wo_MR_Key k \<or> is_PK_Verifying_with_MR_Key k)
       \<and> has_flag (find_constraints F k 0) (NON_REPUDIATION F) =
           (is_PK_Verifying_wo_MR_Key k \<or> is_PK_Verifying_with_MR_Key k)
       \<and> ((\<not> is_PK_Encrypting_Key k \<and> \<not> is_PK_Key_Agreement_Key k \<and>
            \<not> is_PK_Verifying_wo_MR_Key k \<and> \<not> is_PK_Verifying_with_MR_Key k)
           = (find_constraints F k 0 = 0))
       \<and> (is_PK_Encrypting_Key k \<and> \<not> is_PK_Key_Agreement_Key k \<and>
            \<not> is_PK_Verifying_wo_MR_Key k \<and> \<not> is_PK_Verifying_with_MR_Key k \<and>
            has_flag limits (KEY_ENCIPHERMENT F)
            \<longrightarrow> find_constraints F k limits = KEY_ENCIPHERMENT F)"
proof -
  note d = assms [unfolded distinct_flags_def]
  have z:
    "DIGITAL_SIGNATURE F AND NON_REPUDIATION F = 0" "NON_REPUDIATION F AND DIGITAL_SIGNATURE F = 0"
    "DIGITAL_SIGNATURE F AND KEY_ENCIPHERMENT F = 0" "KEY_ENCIPHERMENT F AND DIGITAL_SIGNATURE F = 0"
    "DIGITAL_SIGNATURE F AND KEY_AGREEMENT F = 0" "KEY_AGREEMENT F AND DIGITAL_SIGNATURE F = 0"
    "NON_REPUDIATION F AND KEY_ENCIPHERMENT F = 0" "KEY_ENCIPHERMENT F AND NON_REPUDIATION F = 0"
    "NON_REPUDIATION F AND KEY_AGREEMENT F = 0" "KEY_AGREEMENT F AND NON_REPUDIATION F = 0"
    "KEY_ENCIPHERMENT F AND KEY_AGREEMENT F = 0" "KEY_AGREEMENT F AND KEY_ENCIPHERMENT F = 0"
    using d by (simp_all add: and.commute)
  have nz:
    "0 \<noteq> DIGITAL_SIGNATURE F" "0 \<noteq> NON_REPUDIATION F"
    "0 \<noteq> KEY_ENCIPHERMENT F" "0 \<noteq> KEY_AGREEMENT F"
    "DIGITAL_SIGNATURE F \<noteq> 0" "NON_REPUDIATION F \<noteq> 0"
    "KEY_ENCIPHERMENT F \<noteq> 0" "KEY_AGREEMENT F \<noteq> 0"
    using d by auto
  have enc: "has_flag (find_constraints F k 0) (KEY_ENCIPHERMENT F) = is_PK_Encrypting_Key k"
    by (simp add: find_constraints_unlimited has_flag_or3 if_flag_and bit.conj_disj_distrib2 z nz)
  have agr: "has_flag (find_constraints F k 0) (KEY_AGREEMENT F) = is_PK_Key_Agreement_Key k"
    by (simp add: find_constraints_unlimited has_flag_or3 if_flag_and bit.conj_disj_distrib2 z nz)
  have sig: "has_flag (find_constraints F k 0) (DIGITAL_SIGNATURE F) =
      (is_PK_Verifying_wo_MR_Key k \<or> is_PK_Verifying_with_MR_Key k)"
    by (simp add: find_constraints_unlimited has_flag_or3 if_flag_and bit.conj_disj_distrib2 z nz)
  have nrp: "has_flag (find_constraints F k 0) (NON_REPUDIATION F) =
      (is_PK_Verifying_wo_MR_Key k \<or> is_PK_Verifying_with_MR_Key k)"
    by (simp add: find_constraints_unlimited has_flag_or3 if_flag_and bit.conj_disj_distrib2 z nz)
  have none: "(\<not> is_PK_Encrypting_Key k \<and> \<not> is_PK_Key_Agreement_Key k \<and>
            \<not> is_PK_Verifying_wo_MR_Key k \<and> \<not> is_PK_Verifying_with_MR_Key k)
           = (find_constraints F k 0 = 0)"
  proof
    assume "\<not> is_PK_Encrypting_Key k \<and> \<not> is_PK_Key_Agreement_Key k \<and>
            \<not> is_PK_Verifying_wo_MR_Key k \<and> \<not> is_PK_Verifying_with_MR_Key k"
    then show "find_constraints F k 0 = 0" by (simp add: find_constraints_unlimited)
  next
    assume e: "find_constraints F k 0 = 0"
    from enc agr sig show "\<not> is_PK_Encrypting_Key k \<and> \<not> is_PK_Key_Agreement_Key k \<and>
            \<not> is_PK_Verifying_wo_MR_Key k \<and> \<not> is_PK_Verifying_with_MR_Key k"
      unfolding e has_flag_def using nz by simp
  qed
  have only_enc: "is_PK_Encrypting_Key k \<and> \<not> is_PK_Key_Agreement_Key k \<and>
            \<not> is_PK_Verifying_wo_MR_Key k \<and> \<not> is_PK_Verifying_with_MR_Key k \<and>
            has_flag limits (KEY_ENCIPHERMENT F)
            \<longrightarrow> find_constraints F k limits = KEY_ENCIPHERMENT F"
  proof
    assume a: "is_PK_Encrypting_Key k \<and> \<not> is_PK_Key_Agreement_Key k \<and>
            \<not> is_PK_Verifying_wo_MR_Key k \<and> \<not> is_PK_Verifying_with_MR_Key k \<and>
            has_flag limits (KEY_ENCIPHERMENT F)"
    then have l: "limits AND KEY_ENCIPHERMENT F = KEY_ENCIPHERMENT F"
      by (simp add: has_flag_def)
    with nz have "limits \<noteq> 0" by auto
    then have "find_constraints F k limits = find_constraints F k 0 AND limits"
      by (rule find_constraints_limited)
    also have "\<dots> = KEY_ENCIPHERMENT F AND limits"
      using a by (simp add: find_constraints_unlimited)
    also have "\<dots> = KEY_ENCIPHERMENT F"
      using l by (simp add: and.commute)
    finally show "find_constraints F k limits = KEY_ENCIPHERMENT F" .
  qed
  from enc agr sig nrp none only_enc show ?thesis
    by (simp only: find_constraints_unlimited [symmetric] simp_thms)
qed

theorem find_constraints_capabilities_witness:
  "distinct_flags ex_flags
   \<and> find_constraints ex_flags (ex_key [] []) 0 = 8192 OR 32768 OR 16384
   \<and> has_flag (find_constraints ex_flags (ex_key [] []) 0) 8192
   \<and> \<not> has_flag (find_constraints ex_flags (ex_key [] []) 0) 2048
   \<and> has_flag (find_constraints ex_flags (ex_key [] []) 0) 32768
   \<and> has_flag (find_constraints ex_flags (ex_key [] []) 0) 16384
   \<and> find_constraints ex_flags (ex_key [] []) 0 \<noteq> 0
   \<and> has_flag 0xFFFF (KEY_ENCIPHERMENT ex_flags)
   \<and> find_constraints ex_flags ((ex_key [] [])\<lparr>is_PK_Verifying_wo_MR_Key := False\<rparr>) 0xFFFF = 8192"
  using find_constraints_capabilities [OF ex_flags_distinct,
      where k = "ex_key [] []" and limits = "0xFFFF"]
    find_constraints_capabilities [OF ex_flags_distinct,
      where k = "(ex_key [] [])\<lparr>is_PK_Verifying_wo_MR_Key := False\<rparr>" and limits = "0xFFFF"]
    ex_flags_distinct
  by (simp add: ex_flags_def ex_key_def has_flag_def)

text \<open>
  Claim C6. A non-empty \<open>limits\<close> is intersected (bitwise AND) with the mask computed
  from the capabilities, so the result has no bit outside \<open>limits\<close>; an empty
  \<open>limits\<close> leaves the computed mask as it is.
\<close>

theorem find_constraints_limits:
  "(limits \<noteq> 0 \<longrightarrow>
      find_constraints F k limits = find_constraints F k 0 AND limits
      \<and> find_constraints F k limits AND NOT limits = 0
      \<and> find_constraints F k limits AND limits = find_constraints F k limits)
   \<and> (limits = 0 \<longrightarrow>
      find_constraints F k limits =
        (if is_PK_Encrypting_Key k then KEY_ENCIPHERMENT F else 0) OR
        (if is_PK_Key_Agreement_Key k then KEY_AGREEMENT F else 0) OR
        (if is_PK_Verifying_wo_MR_Key k \<or> is_PK_Verifying_with_MR_Key k
         then DIGITAL_SIGNATURE F OR NON_REPUDIATION F else 0))"
proof (intro conjI impI)
  assume l: "limits \<noteq> 0"
  show eq: "find_constraints F k limits = find_constraints F k 0 AND limits"
    using l by (rule find_constraints_limited)
  show "find_constraints F k limits AND NOT limits = 0"
    unfolding eq by (simp add: and.assoc)
  show "find_constraints F k limits AND limits = find_constraints F k limits"
    unfolding eq by (simp add: and.assoc)
next
  assume "limits = 0"
  then show "find_constraints F k limits =
        (if is_PK_Encrypting_Key k then KEY_ENCIPHERMENT F else 0) OR
        (if is_PK_Key_Agreement_Key k then KEY_AGREEMENT F else 0) OR
        (if is_PK_Verifying_wo_MR_Key k \<or> is_PK_Verifying_with_MR_Key k
         then DIGITAL_SIGNATURE F OR NON_REPUDIATION F else 0)"
    by (simp add: find_constraints_unlimited)
qed

theorem find_constraints_limits_witness:
  "(2048 :: Key_Constraints) \<noteq> 0
   \<and> find_constraints ex_flags (ex_key [] []) 2048 = 0
   \<and> find_constraints ex_flags (ex_key [] []) (8192 OR 2048) = 8192
   \<and> find_constraints ex_flags (ex_key [] []) 0 = 8192 OR 32768 OR 16384"
  using find_constraints_limits [of 2048 ex_flags "ex_key [] []"]
    find_constraints_limits [of "8192 OR 2048" ex_flags "ex_key [] []"]
    find_constraints_limits [of 0 ex_flags "ex_key [] []"]
  by (simp add: find_constraints_unlimited ex_flags_def ex_key_def)

text \<open>
  Claim C10. Whatever the key and the limit, the result of \<open>find_constraints\<close> has no
  bit outside \<open>KEY_ENCIPHERMENT\<close>, \<open>KEY_AGREEMENT\<close>, \<open>DIGITAL_SIGNATURE\<close> and
  \<open>NON_REPUDIATION\<close>.
\<close>

theorem find_constraints_only_four_flags:
  "find_constraints F k limits AND
     NOT (KEY_ENCIPHERMENT F OR KEY_AGREEMENT F OR DIGITAL_SIGNATURE F OR NON_REPUDIATION F) = 0"
proof -
  let ?U = "KEY_ENCIPHERMENT F OR KEY_AGREEMENT F OR DIGITAL_SIGNATURE F OR NON_REPUDIATION F"
  have natural: "find_constraints F k 0 AND NOT ?U = 0"
    unfolding find_constraints_unlimited by (rule bit_eqI) (auto simp: bit_simps)
  show ?thesis
  proof (cases "limits = 0")
    case True
    with natural show ?thesis by simp
  next
    case False
    have "(find_constraints F k 0 AND limits) AND NOT ?U
            = (find_constraints F k 0 AND NOT ?U) AND limits"
      by (simp only: and.assoc and.commute and.left_commute)
    with natural False show ?thesis by (simp add: find_constraints_limited)
  qed
qed

section \<open>Properties of the key identifier\<close>

lemma shift_or_byte:
  "push_bit 8 (w :: u64bit) OR ucast (b :: byte) = w * 256 + ucast b"
proof -
  have "push_bit 8 w + ucast b = push_bit 8 w OR ucast b"
    by (rule disjunctive_add) (auto simp: bit_simps dest: bit_imp_le_length)
  then show ?thesis by (simp add: push_bit_eq_mult)
qed

lemma foldl_shift_or:
  "foldl (\<lambda>id b. push_bit 8 id OR ucast b) (of_nat v :: u64bit) (bs :: bytes)
     = of_nat (foldl (\<lambda>v b. 256 * v + unat b) v bs)"
proof (induction bs arbitrary: v)
  case Nil
  show ?case by simp
next
  case (Cons b bs)
  have "push_bit 8 (of_nat v :: u64bit) OR ucast b = of_nat (256 * v + unat b)"
    by (simp add: shift_or_byte mult.commute)
  then show ?case using Cons.IH [of "256 * v + unat b"] by simp
qed

lemma foldl_index_take:
  "n \<le> length xs \<Longrightarrow> foldl (\<lambda>a j. f a (xs ! j)) a0 [0..<n] = foldl f a0 (take n xs)"
proof (induction n)
  case 0
  show ?case by simp
next
  case (Suc n)
  then have "take (Suc n) xs = take n xs @ [xs ! n]"
    by (simp add: take_Suc_conv_app_nth)
  with Suc show ?case by simp
qed

lemma big_endian_step_bound:
  "foldl (\<lambda>v b. 256 * v + unat (b :: byte)) v bs < 256 ^ length bs * (v + 1)"
proof (induction bs arbitrary: v)
  case Nil
  show ?case by simp
next
  case (Cons b bs)
  have "unat b < 256" using unsigned_less [of b] by simp
  then have "256 * v + unat b + 1 \<le> 256 * (v + 1)" by simp
  then have "256 ^ length bs * (256 * v + unat b + 1) \<le> 256 ^ length bs * (256 * (v + 1))"
    by (rule mult_le_mono2)
  with Cons.IH [of "256 * v + unat b"]
  have "foldl (\<lambda>v b. 256 * v + unat b) (256 * v + unat b) bs
          < 256 ^ length bs * (256 * (v + 1))"
    by (rule less_le_trans)
  then show ?case by (simp add: algebra_simps)
qed

lemma big_endian_bound: "big_endian bs < 256 ^ length bs"
  using big_endian_step_bound [of 0 bs] by (simp add: big_endian_def)

lemma key_id_loop:
  assumes "length out = 8"
  shows "foldl (\<lambda>id j. push_bit 8 id OR ucast (out ! j)) (0 :: u64bit) [0..<8]
           = of_nat (big_endian out)"
proof -
  have "foldl (\<lambda>id j. push_bit 8 id OR ucast (out ! j)) (0 :: u64bit) [0..<8]
          = foldl (\<lambda>id b. push_bit 8 id OR ucast b) (0 :: u64bit) (take 8 out)"
    using assms foldl_index_take [of 8 out "\<lambda>id b. push_bit 8 id OR ucast b" "0 :: u64bit"]
    by simp
  also have "\<dots> = foldl (\<lambda>id b. push_bit 8 id OR ucast b) (of_nat 0 :: u64bit) out"
    using assms by simp
  also have "\<dots> = of_nat (big_endian out)"
    unfolding big_endian_def by (rule foldl_shift_or)
  finally show ?thesis .
qed

lemma unat_big_endian_8:
  assumes "length out = 8"
  shows "unat (of_nat (big_endian out) :: u64bit) = big_endian out"
proof -
  have "big_endian out < 256 ^ 8" using big_endian_bound [of out] assms by simp
  then have "big_endian out < 2 ^ 64" by simp
  then show ?thesis by (simp add: unat_of_nat)
qed

lemma big_endian_8:
  assumes "length out = 8"
  shows "big_endian out =
           unat (out ! 0) * 256 ^ 7 + unat (out ! 1) * 256 ^ 6 + unat (out ! 2) * 256 ^ 5 +
           unat (out ! 3) * 256 ^ 4 + unat (out ! 4) * 256 ^ 3 + unat (out ! 5) * 256 ^ 2 +
           unat (out ! 6) * 256 + unat (out ! 7)"
proof -
  obtain b0 b1 b2 b3 b4 b5 b6 b7 where "out = [b0, b1, b2, b3, b4, b5, b6, b7]"
    using assms by (auto simp: length_Suc_conv numeral_eq_Suc)
  then show ?thesis by (simp add: big_endian_def)
qed

text \<open>What \<open>key_id\<close> returns for a key with an encoder, in terms of the pipe's output.\<close>

lemma key_id_with_encoder:
  assumes "x509_encoder key = Some enc"
    and "out = take 8 (hash_final H
            (hash_update H
              (hash_update H
                (hash_update H (get_hash H ''SHA-1'') (bytes_of_string (algo_name key)))
                (parameters (alg_id (enc (key_state key)))))
              (key_bits (enc (key_state key)))))"
  shows "key_id H key =
           (if length out \<noteq> 8
            then Inl (Internal_Error ''X509_PublicKey::key_id: Incorrect output size'')
            else Inr (of_nat (big_endian out)))"
proof -
  have k: "key_id H key =
      (if length out \<noteq> 8
       then Inl (Internal_Error ''X509_PublicKey::key_id: Incorrect output size'')
       else Inr (foldl (\<lambda>id j. push_bit 8 id OR ucast (out ! j)) 0 [0..<8]))"
    unfolding key_id_defs Let_def assms(1) option.case assms(2) [symmetric] by (rule refl)
  show ?thesis
  proof (cases "length out = 8")
    case True
    then show ?thesis using k key_id_loop [OF True] by simp
  next
    case False
    then show ?thesis using k by simp
  qed
qed

text \<open>
  Claim C3. For a key with an X.509 encoder, \<open>key_id\<close> writes the algorithm name, then
  the encoded parameters, then the key bits into one hash context (three writes, in this
  order), keeps the first eight bytes of the digest and returns them read as a
  big-endian unsigned 64-bit number: the first byte is the most significant. This needs
  a digest of at least eight bytes. The result depends on the key only through its
  algorithm name, parameters and key bits: two keys that agree on the three have the
  same identifier.
\<close>

theorem key_id_big_endian_digest:
  assumes "x509_encoder key = Some enc"
    and "digest = hash_final H
            (hash_update H
              (hash_update H
                (hash_update H (get_hash H ''SHA-1'') (bytes_of_string (algo_name key)))
                (parameters (alg_id (enc (key_state key)))))
              (key_bits (enc (key_state key))))"
    and "8 \<le> length digest"
  shows "key_id H key = Inr (of_nat (big_endian (take 8 digest)))
       \<and> unat (of_nat (big_endian (take 8 digest)) :: u64bit) = big_endian (take 8 digest)
       \<and> big_endian (take 8 digest) =
           unat (digest ! 0) * 256 ^ 7 + unat (digest ! 1) * 256 ^ 6 +
           unat (digest ! 2) * 256 ^ 5 + unat (digest ! 3) * 256 ^ 4 +
           unat (digest ! 4) * 256 ^ 3 + unat (digest ! 5) * 256 ^ 2 +
           unat (digest ! 6) * 256 + unat (digest ! 7)
       \<and> (\<forall>(key2 :: 't X509_PublicKey) enc2.
             x509_encoder key2 = Some enc2 \<and> algo_name key2 = algo_name key \<and>
             parameters (alg_id (enc2 (key_state key2))) = parameters (alg_id (enc (key_state key))) \<and>
             key_bits (enc2 (key_state key2)) = key_bits (enc (key_state key))
             \<longrightarrow> key_id H key2 = key_id H key)"
proof (intro conjI allI impI)
  have len: "length (take 8 digest) = 8"
    using assms(3) by simp
  have out: "take 8 digest = take 8 (hash_final H
            (hash_update H
              (hash_update H
                (hash_update H (get_hash H ''SHA-1'') (bytes_of_string (algo_name key)))
                (parameters (alg_id (enc (key_state key)))))
              (key_bits (enc (key_state key)))))"
    using assms(2) by simp
  note k = key_id_with_encoder [OF assms(1) out]
  show "key_id H key = Inr (of_nat (big_endian (take 8 digest)))"
    using k len by simp
  show "unat (of_nat (big_endian (take 8 digest)) :: u64bit) = big_endian (take 8 digest)"
    using len by (rule unat_big_endian_8)
  show "big_endian (take 8 digest) =
           unat (digest ! 0) * 256 ^ 7 + unat (digest ! 1) * 256 ^ 6 +
           unat (digest ! 2) * 256 ^ 5 + unat (digest ! 3) * 256 ^ 4 +
           unat (digest ! 4) * 256 ^ 3 + unat (digest ! 5) * 256 ^ 2 +
           unat (digest ! 6) * 256 + unat (digest ! 7)"
    using big_endian_8 [OF len] by simp
  fix key2 :: "'t X509_PublicKey" and enc2
  assume a: "x509_encoder key2 = Some enc2 \<and> algo_name key2 = algo_name key \<and>
             parameters (alg_id (enc2 (key_state key2))) = parameters (alg_id (enc (key_state key))) \<and>
             key_bits (enc2 (key_state key2)) = key_bits (enc (key_state key))"
  then have "take 8 digest = take 8 (hash_final H
            (hash_update H
              (hash_update H
                (hash_update H (get_hash H ''SHA-1'') (bytes_of_string (algo_name key2)))
                (parameters (alg_id (enc2 (key_state key2)))))
              (key_bits (enc2 (key_state key2)))))"
    using out by simp
  with a have "key_id H key2 =
           (if length (take 8 digest) \<noteq> 8
            then Inl (Internal_Error ''X509_PublicKey::key_id: Incorrect output size'')
            else Inr (of_nat (big_endian (take 8 digest))))"
    using key_id_with_encoder [of key2 enc2 "take 8 digest" H] by simp
  then show "key_id H key2 = key_id H key"
    using k by simp
qed

theorem key_id_big_endian_digest_witness:
  "x509_encoder (ex_key [5, 0] [1, 2, 3]) = Some ex_encoder
   \<and> (8 :: nat) \<le> length ([0x45, 0x58, 0x05, 0x00, 0x01, 0x02, 0x03] @ replicate 20 (0 :: byte))
   \<and> key_id ex_hash (ex_key [5, 0] [1, 2, 3]) = Inr 0x4558050001020300
   \<and> big_endian [0x45, 0x58, 0x05, 0x00, 0x01, 0x02, 0x03, 0x00] = 0x4558050001020300
   \<and> key_id ex_hash ((ex_key [5, 0] [1, 2, 3])\<lparr>is_PK_Encrypting_Key := False, x509_decoder := None\<rparr>)
       = key_id ex_hash (ex_key [5, 0] [1, 2, 3])"
proof -
  let ?digest = "[0x45, 0x58, 0x05, 0x00, 0x01, 0x02, 0x03] @ replicate 20 (0 :: byte)"
  have e: "x509_encoder (ex_key [5, 0] [1, 2, 3]) = Some ex_encoder"
    by (simp add: ex_key_def)
  have o: "?digest = hash_final ex_hash
            (hash_update ex_hash
              (hash_update ex_hash
                (hash_update ex_hash (get_hash ex_hash ''SHA-1'')
                   (bytes_of_string (algo_name (ex_key [5, 0] [1, 2, 3]))))
                (parameters (alg_id (ex_encoder (key_state (ex_key [5, 0] [1, 2, 3]))))))
              (key_bits (ex_encoder (key_state (ex_key [5, 0] [1, 2, 3])))))"
    by (simp add: ex_defs)
  have l: "8 \<le> length ?digest"
    by simp
  have p: "take 8 ?digest = [0x45, 0x58, 0x05, 0x00, 0x01, 0x02, 0x03, 0x00]"
    by (simp add: numeral_eq_Suc)
  have v: "big_endian [0x45, 0x58, 0x05, 0x00, 0x01, 0x02, 0x03, 0x00] = 0x4558050001020300"
    by (simp add: big_endian_def)
  note t = key_id_big_endian_digest [where 't = "bytes \<times> bytes", OF e o l]
  have i: "key_id ex_hash (ex_key [5, 0] [1, 2, 3]) = Inr 0x4558050001020300"
    using t [THEN conjunct1] unfolding p v by simp
  have s: "key_id ex_hash
        ((ex_key [5, 0] [1, 2, 3])\<lparr>is_PK_Encrypting_Key := False, x509_decoder := None\<rparr>)
       = key_id ex_hash (ex_key [5, 0] [1, 2, 3])"
    by (rule t [THEN conjunct2, THEN conjunct2, THEN conjunct2, rule_format,
          where ?enc2.0 = ex_encoder])
      (simp add: ex_key_def)
  show ?thesis
    by (intro conjI e l i v s)
qed

text \<open>
  Claim C8. \<open>key_id\<close> fails in exactly two cases, both with an \<open>Internal_Error\<close>: the
  key has no X.509 encoder, or the pipe's output is not eight bytes long. In every other
  case it returns an identifier. \<open>Internal_Error\<close> is a kind of its own, different from
  \<open>Decoding_Error\<close> and \<open>Encoding_Error\<close>.
\<close>

theorem key_id_failures:
  assumes "out = (case x509_encoder key of
              None \<Rightarrow> []
            | Some enc \<Rightarrow> take 8 (hash_final H
               (hash_update H
                 (hash_update H
                   (hash_update H (get_hash H ''SHA-1'') (bytes_of_string (algo_name key)))
                   (parameters (alg_id (enc (key_state key)))))
                 (key_bits (enc (key_state key))))))"
  shows "(x509_encoder key = None \<longrightarrow>
            key_id H key = Inl (Internal_Error ''X509_PublicKey:key_id: No encoder found''))
       \<and> (x509_encoder key \<noteq> None \<and> length out \<noteq> 8 \<longrightarrow>
            key_id H key = Inl (Internal_Error ''X509_PublicKey::key_id: Incorrect output size''))
       \<and> (x509_encoder key \<noteq> None \<and> length out = 8 \<longrightarrow>
            key_id H key = Inr (of_nat (big_endian out)))
       \<and> (\<forall>e. key_id H key = Inl e \<longrightarrow>
            (x509_encoder key = None \<or> length out \<noteq> 8) \<and>
            (\<exists>m. e = Internal_Error m) \<and>
            (\<forall>m. e \<noteq> Decoding_Error m \<and> e \<noteq> Encoding_Error m))"
proof (cases "x509_encoder key")
  case None
  then show ?thesis by (simp add: key_id_def)
next
  case (Some enc)
  with assms have o: "out = take 8 (hash_final H
            (hash_update H
              (hash_update H
                (hash_update H (get_hash H ''SHA-1'') (bytes_of_string (algo_name key)))
                (parameters (alg_id (enc (key_state key)))))
              (key_bits (enc (key_state key)))))"
    by simp
  show ?thesis
    using Some key_id_with_encoder [OF Some o] by auto
qed

theorem key_id_failures_witness:
  "x509_encoder ((ex_key [5, 0] [1, 2, 3])\<lparr>x509_encoder := None\<rparr>) = None
   \<and> key_id ex_hash ((ex_key [5, 0] [1, 2, 3])\<lparr>x509_encoder := None\<rparr>)
       = Inl (Internal_Error ''X509_PublicKey:key_id: No encoder found'')
   \<and> x509_encoder (ex_key [5, 0] [1, 2, 3]) \<noteq> None
   \<and> length [0x45, 0x58, 0x05, 0x00 :: byte] \<noteq> 8
   \<and> key_id ex_short_hash (ex_key [5, 0] [1, 2, 3])
       = Inl (Internal_Error ''X509_PublicKey::key_id: Incorrect output size'')
   \<and> length [0x45, 0x58, 0x05, 0x00, 0x01, 0x02, 0x03, 0x00 :: byte] = 8
   \<and> key_id ex_hash (ex_key [5, 0] [1, 2, 3]) = Inr 0x4558050001020300"
proof -
  have "key_id ex_hash ((ex_key [5, 0] [1, 2, 3])\<lparr>x509_encoder := None\<rparr>)
       = Inl (Internal_Error ''X509_PublicKey:key_id: No encoder found'')"
    using key_id_failures [where out = "[]" and H = ex_hash
        and key = "(ex_key [5, 0] [1, 2, 3])\<lparr>x509_encoder := None\<rparr>"]
    by (simp add: ex_key_def)
  moreover have "key_id ex_short_hash (ex_key [5, 0] [1, 2, 3])
       = Inl (Internal_Error ''X509_PublicKey::key_id: Incorrect output size'')"
    using key_id_failures [where out = "[0x45, 0x58, 0x05, 0x00]" and H = ex_short_hash
        and key = "ex_key [5, 0] [1, 2, 3]"]
    by (simp add: ex_defs)
  moreover have "key_id ex_hash (ex_key [5, 0] [1, 2, 3]) = Inr 0x4558050001020300"
    using key_id_failures [where out = "[0x45, 0x58, 0x05, 0x00, 0x01, 0x02, 0x03, 0x00]"
        and H = ex_hash and key = "ex_key [5, 0] [1, 2, 3]"]
    by (simp add: ex_defs big_endian_def)
  ultimately show ?thesis by (simp add: ex_key_def)
qed

section \<open>Properties of encoding\<close>

text \<open>
  Claim C4. \<open>encode\<close> fails with an \<open>Encoding_Error\<close> when the key has no X.509
  encoder. Otherwise it builds the DER bytes of the sequence of the encoder's algorithm
  identifier and its key bits as a bit string, and writes to the pipe either these
  bytes unchanged (any encoding other than \<open>PEM\<close>) or their PEM framing under the
  label \<open>PUBLIC KEY\<close>.
\<close>

theorem encode_der_or_pem:
  "(x509_encoder key = None \<longrightarrow>
      encode D P key pipe encoding =
        Inl (Encoding_Error ''X509::encode: Key does not support encoding''))
   \<and> (\<forall>enc der.
        x509_encoder key = Some enc \<and>
        der = der_get_contents D
                (der_end_cons D
                  (der_encode_bytes D (key_bits (enc (key_state key))) BIT_STRING
                    (der_encode_alg_id D (alg_id (enc (key_state key)))
                      (der_start_cons D SEQUENCE (DER_Encoder D)))))
        \<longrightarrow> encode D P key pipe PEM =
              Inr (pipe @ bytes_of_string (PEM_encode_label P der ''PUBLIC KEY''))
          \<and> encode D P key pipe RAW_BER = Inr (pipe @ der)
          \<and> (encoding \<noteq> PEM \<longrightarrow> encode D P key pipe encoding = Inr (pipe @ der)))"
  by (simp add: encode_def der_SubjectPublicKeyInfo_def Let_def)

theorem encode_der_or_pem_witness:
  "x509_encoder ((ex_key [5, 0] [1, 2, 3])\<lparr>x509_encoder := None\<rparr>) = None
   \<and> encode ex_DER ex_PEM ((ex_key [5, 0] [1, 2, 3])\<lparr>x509_encoder := None\<rparr>) [] RAW_BER
       = Inl (Encoding_Error ''X509::encode: Key does not support encoding'')
   \<and> x509_encoder (ex_key [5, 0] [1, 2, 3]) = Some ex_encoder
   \<and> encode ex_DER ex_PEM (ex_key [5, 0] [1, 2, 3]) [] RAW_BER
       = Inr [0x30, 15, 0x30, 7, 0x06, 3, 1, 2, 3, 5, 0, 0x03, 4, 0, 1, 2, 3]
   \<and> encode ex_DER ex_PEM (ex_key [5, 0] [1, 2, 3]) [] PEM
       = Inr (bytes_of_string ''-----BEGIN PUBLIC KEY-----'' @
              [0x30, 15, 0x30, 7, 0x06, 3, 1, 2, 3, 5, 0, 0x03, 4, 0, 1, 2, 3])"
proof -
  have n: "x509_encoder ((ex_key [5, 0] [1, 2, 3])\<lparr>x509_encoder := None\<rparr>) = None"
    by (simp add: ex_key_def)
  have e: "x509_encoder (ex_key [5, 0] [1, 2, 3]) = Some ex_encoder"
    by (simp add: ex_key_def)
  have d: "[0x30, 15, 0x30, 7, 0x06, 3, 1, 2, 3, 5, 0, 0x03, 4, 0, 1, 2, 3] =
      der_get_contents ex_DER
        (der_end_cons ex_DER
          (der_encode_bytes ex_DER (key_bits (ex_encoder (key_state (ex_key [5, 0] [1, 2, 3])))) BIT_STRING
            (der_encode_alg_id ex_DER (alg_id (ex_encoder (key_state (ex_key [5, 0] [1, 2, 3]))))
              (der_start_cons ex_DER SEQUENCE (DER_Encoder ex_DER)))))"
    by (simp add: ex_defs)
  have p: "bytes_of_string (PEM_encode_label ex_PEM
             [0x30, 15, 0x30, 7, 0x06, 3, 1, 2, 3, 5, 0, 0x03, 4, 0, 1, 2, 3] ''PUBLIC KEY'')
         = bytes_of_string ''-----BEGIN PUBLIC KEY-----'' @
              [0x30, 15, 0x30, 7, 0x06, 3, 1, 2, 3, 5, 0, 0x03, 4, 0, 1, 2, 3]"
    by (simp add: ex_PEM_encode_bytes ex_pem_head_def)
  note absent = encode_der_or_pem [where D = ex_DER and P = ex_PEM and pipe = "[]"
      and encoding = RAW_BER and key = "(ex_key [5, 0] [1, 2, 3])\<lparr>x509_encoder := None\<rparr>",
      THEN conjunct1, rule_format, OF n]
  note present = encode_der_or_pem [where D = ex_DER and P = ex_PEM and pipe = "[]"
      and encoding = RAW_BER and key = "ex_key [5, 0] [1, 2, 3]",
      THEN conjunct2, rule_format, OF conjI [OF e d]]
  from absent present n e show ?thesis
    unfolding p by simp
qed

section \<open>Properties of decoding\<close>

text \<open>The \<^verbatim>\<open>catch\<close> clause of \<open>load_key\<close>, by the outcome of the \<^verbatim>\<open>try\<close> block.\<close>

lemma load_key_caught:
  "load_key_try B P R source = Inl (Decoding_Error m) \<Longrightarrow>
   load_key B P R source = Inl (Decoding_Error ''X.509 public key decoding failed'')"
  by (simp add: load_key_def)

lemma load_key_caught_any:
  "\<exists>m. load_key_try B P R source = Inl (Decoding_Error m) \<Longrightarrow>
   load_key B P R source = Inl (Decoding_Error ''X.509 public key decoding failed'')"
  by (auto simp: load_key_def)


lemma load_key_not_caught:
  "load_key_try B P R source = Inl e \<Longrightarrow> \<forall>m. e \<noteq> Decoding_Error m \<Longrightarrow>
   load_key B P R source = Inl e"
  by (cases e) (simp_all add: load_key_def)

lemma load_key_Decoding_Error_message:
  "load_key B P R source = Inl (Decoding_Error m) \<Longrightarrow> m = ''X.509 public key decoding failed''"
  by (auto simp: load_key_def split: sum.splits exn.splits)

text \<open>The \<^verbatim>\<open>try\<close> block after the structure has been read (lines 114 to 134).\<close>

lemma load_key_try_read_failed:
  "read_SubjectPublicKeyInfo B P source = Inl e \<Longrightarrow> load_key_try B P R source = Inl e"
  by (simp add: load_key_try_def)

lemma load_key_try_empty_bits:
  "read_SubjectPublicKeyInfo B P source = Inr (a, []) \<Longrightarrow>
   load_key_try B P R source = Inl (Decoding_Error ''X.509 public key decoding failed'')"
  by (simp add: load_key_try_def)

lemma load_key_try_unknown_oid:
  "read_SubjectPublicKeyInfo B P source = Inr (a, bits) \<Longrightarrow> OIDS_lookup R (oid a) = [] \<Longrightarrow>
   \<exists>m. load_key_try B P R source = Inl (Decoding_Error m)"
  by (simp add: load_key_try_def)

lemma load_key_try_no_constructor:
  "read_SubjectPublicKeyInfo B P source = Inr (a, bits) \<Longrightarrow>
   get_public_key R (OIDS_lookup R (oid a)) = None \<Longrightarrow>
   \<exists>m. load_key_try B P R source = Inl (Decoding_Error m)"
  by (simp add: load_key_try_def Let_def)

lemma load_key_try_no_decoder:
  "read_SubjectPublicKeyInfo B P source = Inr (a, bits) \<Longrightarrow>
   get_public_key R (OIDS_lookup R (oid a)) = Some key_obj \<Longrightarrow> x509_decoder key_obj = None \<Longrightarrow>
   \<exists>m. load_key_try B P R source = Inl (Decoding_Error m)"
  by (simp add: load_key_try_def Let_def)

lemma load_key_try_alg_id_rejected:
  "read_SubjectPublicKeyInfo B P source = Inr (a, bits) \<Longrightarrow>
   get_public_key R (OIDS_lookup R (oid a)) = Some key_obj \<Longrightarrow> x509_decoder key_obj = Some dec \<Longrightarrow>
   decoder_alg_id dec a (key_state key_obj) = Inl (Decoding_Error m) \<Longrightarrow>
   \<exists>m. load_key_try B P R source = Inl (Decoding_Error m)"
  by (simp add: load_key_try_def Let_def)

lemma load_key_try_key_bits_rejected:
  "read_SubjectPublicKeyInfo B P source = Inr (a, bits) \<Longrightarrow>
   get_public_key R (OIDS_lookup R (oid a)) = Some key_obj \<Longrightarrow> x509_decoder key_obj = Some dec \<Longrightarrow>
   decoder_alg_id dec a (key_state key_obj) = Inr s1 \<Longrightarrow>
   decoder_key_bits dec bits s1 = Inl (Decoding_Error m) \<Longrightarrow>
   \<exists>m. load_key_try B P R source = Inl (Decoding_Error m)"
  by (simp add: load_key_try_def Let_def)

lemma load_key_try_accepted:
  "read_SubjectPublicKeyInfo B P source = Inr (a, bits) \<Longrightarrow> bits \<noteq> [] \<Longrightarrow>
   OIDS_lookup R (oid a) \<noteq> [] \<Longrightarrow>
   get_public_key R (OIDS_lookup R (oid a)) = Some key_obj \<Longrightarrow> x509_decoder key_obj = Some dec \<Longrightarrow>
   decoder_alg_id dec a (key_state key_obj) = Inr s1 \<Longrightarrow>
   decoder_key_bits dec bits s1 = Inr s2 \<Longrightarrow>
   load_key_try B P R source = Inr (key_obj\<lparr>key_state := s2\<rparr>)"
  by (simp add: load_key_try_def Let_def)

lemma load_key_try_alg_id_threw:
  "read_SubjectPublicKeyInfo B P source = Inr (a, bits) \<Longrightarrow> bits \<noteq> [] \<Longrightarrow>
   OIDS_lookup R (oid a) \<noteq> [] \<Longrightarrow>
   get_public_key R (OIDS_lookup R (oid a)) = Some key_obj \<Longrightarrow> x509_decoder key_obj = Some dec \<Longrightarrow>
   decoder_alg_id dec a (key_state key_obj) = Inl e \<Longrightarrow>
   load_key_try B P R source = Inl e"
  by (simp add: load_key_try_def Let_def)

lemma load_key_try_key_bits_threw:
  "read_SubjectPublicKeyInfo B P source = Inr (a, bits) \<Longrightarrow> bits \<noteq> [] \<Longrightarrow>
   OIDS_lookup R (oid a) \<noteq> [] \<Longrightarrow>
   get_public_key R (OIDS_lookup R (oid a)) = Some key_obj \<Longrightarrow> x509_decoder key_obj = Some dec \<Longrightarrow>
   decoder_alg_id dec a (key_state key_obj) = Inr s1 \<Longrightarrow>
   decoder_key_bits dec bits s1 = Inl e \<Longrightarrow>
   load_key_try B P R source = Inl e"
  by (simp add: load_key_try_def Let_def)

text \<open>
  An exception of a collaborator that is not a \<open>Decoding_Error\<close> is not caught:
  \<open>load_key\<close> passes it on as it is.
\<close>

lemma load_key_passes_other_exceptions:
  "read_SubjectPublicKeyInfo B P source = Inl e \<Longrightarrow> \<forall>m. e \<noteq> Decoding_Error m \<Longrightarrow>
   load_key B P R source = Inl e"
  by (rule load_key_not_caught [OF load_key_try_read_failed])


text \<open>
  Claim C1, as stated, fails: \<open>load_key\<close> catches \<open>Decoding_Error\<close> only. When the
  BER decoder reports a malformed bit string, or the key's decoder rejects the key bits,
  with an exception of another class, the caller sees that exception with its own
  message, not the generic decoding failure.
\<close>

theorem load_key_other_exception_counterexample:
  "load_key ex_BER_other ex_PEM ex_registry [0x30, 9, 0x30, 5, 0x06, 3, 1, 2, 3, 0x03, 0]
      = Inl (Other_Exception ''BER: bad bit string'')
   \<and> load_key ex_BER ex_PEM ex_registry [0x30, 9, 0x30, 5, 0x06, 3, 1, 2, 3, 0x03, 0]
      = Inl (Decoding_Error ''X.509 public key decoding failed'')
   \<and> load_key ex_BER ex_PEM ex_registry_other (ex_spki [1, 2, 3] [] [0xFF])
      = Inl (Other_Exception ''bad key material'')
   \<and> load_key ex_BER ex_PEM ex_registry (ex_spki [1, 2, 3] [] [0xFF])
      = Inl (Decoding_Error ''X.509 public key decoding failed'')"
  by (simp add: decode_defs ex_defs ex_BER_other_def ex_decoder_other_def ex_registry_other_def)

text \<open>
  Claim C1, amended. Whatever the source, the four checks of \<open>load_key\<close> itself (empty
  key bits, an OID without a name, a name without a constructor, a key without a
  decoder) reach the caller as the one \<open>Decoding_Error\<close> with the message
  \<open>X.509 public key decoding failed\<close>. A failure of a collaborator (the PEM transform
  or the BER decoder while the structure is read, the key's decoder when it is given the
  algorithm identifier or the key bits) reaches the caller as that same error when it is
  signalled with the \<open>Decoding_Error\<close> class, and passes through \<open>load_key\<close> unchanged,
  class and message, when it is signalled with any other class. Every
  \<open>Decoding_Error\<close> that leaves \<open>load_key\<close> carries the fixed message, so among the
  caught failures the cause cannot be read off the error.
\<close>

theorem load_key_uniform_failure:
  "(\<forall>m. read_SubjectPublicKeyInfo B P source = Inl (Decoding_Error m) \<longrightarrow>
        load_key B P R source = Inl (Decoding_Error ''X.509 public key decoding failed''))
   \<and> (\<forall>a bits. read_SubjectPublicKeyInfo B P source = Inr (a, bits) \<longrightarrow>
        (bits = [] \<longrightarrow>
           load_key B P R source = Inl (Decoding_Error ''X.509 public key decoding failed''))
      \<and> (OIDS_lookup R (oid a) = [] \<longrightarrow>
           load_key B P R source = Inl (Decoding_Error ''X.509 public key decoding failed''))
      \<and> (get_public_key R (OIDS_lookup R (oid a)) = None \<longrightarrow>
           load_key B P R source = Inl (Decoding_Error ''X.509 public key decoding failed''))
      \<and> (\<forall>key_obj. get_public_key R (OIDS_lookup R (oid a)) = Some key_obj \<longrightarrow>
           (x509_decoder key_obj = None \<longrightarrow>
              load_key B P R source = Inl (Decoding_Error ''X.509 public key decoding failed''))
         \<and> (\<forall>dec m. x509_decoder key_obj = Some dec \<longrightarrow>
              (decoder_alg_id dec a (key_state key_obj) = Inl (Decoding_Error m) \<longrightarrow>
                 load_key B P R source = Inl (Decoding_Error ''X.509 public key decoding failed''))
            \<and> (\<forall>s1. decoder_alg_id dec a (key_state key_obj) = Inr s1 \<and>
                     decoder_key_bits dec bits s1 = Inl (Decoding_Error m) \<longrightarrow>
                 load_key B P R source = Inl (Decoding_Error ''X.509 public key decoding failed'')))))
   \<and> (\<forall>m. load_key B P R source = Inl (Decoding_Error m) \<longrightarrow>
        m = ''X.509 public key decoding failed'')
   \<and> (\<forall>e. (\<forall>m. e \<noteq> Decoding_Error m) \<and> read_SubjectPublicKeyInfo B P source = Inl e \<longrightarrow>
        load_key B P R source = Inl e)
   \<and> (\<forall>e a bits key_obj dec.
        (\<forall>m. e \<noteq> Decoding_Error m) \<and>
        read_SubjectPublicKeyInfo B P source = Inr (a, bits) \<and> bits \<noteq> [] \<and>
        OIDS_lookup R (oid a) \<noteq> [] \<and>
        get_public_key R (OIDS_lookup R (oid a)) = Some key_obj \<and>
        x509_decoder key_obj = Some dec \<and>
        (decoder_alg_id dec a (key_state key_obj) = Inl e \<or>
         (\<exists>s1. decoder_alg_id dec a (key_state key_obj) = Inr s1 \<and>
               decoder_key_bits dec bits s1 = Inl e))
        \<longrightarrow> load_key B P R source = Inl e)"
proof (intro conjI allI impI)
  fix m
  assume "read_SubjectPublicKeyInfo B P source = Inl (Decoding_Error m)"
  then show "load_key B P R source = Inl (Decoding_Error ''X.509 public key decoding failed'')"
    by (rule load_key_caught [OF load_key_try_read_failed])
next
  fix a bits
  assume r: "read_SubjectPublicKeyInfo B P source = Inr (a, bits)"
  {
    assume "bits = []"
    with r show "load_key B P R source = Inl (Decoding_Error ''X.509 public key decoding failed'')"
      by (simp add: load_key_caught [OF load_key_try_empty_bits])
  next
    assume "OIDS_lookup R (oid a) = []"
    with r show "load_key B P R source = Inl (Decoding_Error ''X.509 public key decoding failed'')"
      by (intro load_key_caught_any load_key_try_unknown_oid)
  next
    assume "get_public_key R (OIDS_lookup R (oid a)) = None"
    with r show "load_key B P R source = Inl (Decoding_Error ''X.509 public key decoding failed'')"
      by (intro load_key_caught_any load_key_try_no_constructor)
  next
    fix key_obj
    assume k: "get_public_key R (OIDS_lookup R (oid a)) = Some key_obj"
    {
      assume n: "x509_decoder key_obj = None"
      show "load_key B P R source = Inl (Decoding_Error ''X.509 public key decoding failed'')"
        by (rule load_key_caught_any [OF load_key_try_no_decoder [OF r k n]])
    next
      fix dec m
      assume d: "x509_decoder key_obj = Some dec"
      {
        assume x: "decoder_alg_id dec a (key_state key_obj) = Inl (Decoding_Error m)"
        show "load_key B P R source = Inl (Decoding_Error ''X.509 public key decoding failed'')"
          by (rule load_key_caught_any [OF load_key_try_alg_id_rejected [OF r k d x]])
      next
        fix s1
        assume x: "decoder_alg_id dec a (key_state key_obj) = Inr s1 \<and>
                decoder_key_bits dec bits s1 = Inl (Decoding_Error m)"
        show "load_key B P R source = Inl (Decoding_Error ''X.509 public key decoding failed'')"
          by (rule load_key_caught_any
                [OF load_key_try_key_bits_rejected [OF r k d conjunct1 [OF x] conjunct2 [OF x]]])
      }
    }
  }
next
  fix m
  assume "load_key B P R source = Inl (Decoding_Error m)"
  then show "m = ''X.509 public key decoding failed''"
    by (rule load_key_Decoding_Error_message)
next
  fix e
  assume "(\<forall>m. e \<noteq> Decoding_Error m) \<and> read_SubjectPublicKeyInfo B P source = Inl e"
  then show "load_key B P R source = Inl e"
    using load_key_passes_other_exceptions [of B P source e R] by simp
next
  fix e a bits key_obj dec
  assume h: "(\<forall>m. e \<noteq> Decoding_Error m) \<and>
        read_SubjectPublicKeyInfo B P source = Inr (a, bits) \<and> bits \<noteq> [] \<and>
        OIDS_lookup R (oid a) \<noteq> [] \<and>
        get_public_key R (OIDS_lookup R (oid a)) = Some key_obj \<and>
        x509_decoder key_obj = Some dec \<and>
        (decoder_alg_id dec a (key_state key_obj) = Inl e \<or>
         (\<exists>s1. decoder_alg_id dec a (key_state key_obj) = Inr s1 \<and>
               decoder_key_bits dec bits s1 = Inl e))"
  then have r: "read_SubjectPublicKeyInfo B P source = Inr (a, bits)"
    and b: "bits \<noteq> []" and n: "OIDS_lookup R (oid a) \<noteq> []"
    and k: "get_public_key R (OIDS_lookup R (oid a)) = Some key_obj"
    and d: "x509_decoder key_obj = Some dec"
    and other: "\<forall>m. e \<noteq> Decoding_Error m"
    by simp_all
  from h have "decoder_alg_id dec a (key_state key_obj) = Inl e \<or>
         (\<exists>s1. decoder_alg_id dec a (key_state key_obj) = Inr s1 \<and>
               decoder_key_bits dec bits s1 = Inl e)"
    by simp
  then have "load_key_try B P R source = Inl e"
  proof
    assume "decoder_alg_id dec a (key_state key_obj) = Inl e"
    then show ?thesis by (rule load_key_try_alg_id_threw [OF r b n k d])
  next
    assume "\<exists>s1. decoder_alg_id dec a (key_state key_obj) = Inr s1 \<and>
               decoder_key_bits dec bits s1 = Inl e"
    then obtain s1 where "decoder_alg_id dec a (key_state key_obj) = Inr s1"
      and "decoder_key_bits dec bits s1 = Inl e"
      by blast
    then show ?thesis by (rule load_key_try_key_bits_threw [OF r b n k d])
  qed
  then show "load_key B P R source = Inl e"
    using other by (rule load_key_not_caught)
qed
theorem load_key_uniform_failure_witness:
  "read_SubjectPublicKeyInfo ex_BER ex_PEM [0x30, 5, 1]
      = Inl (Decoding_Error ''BER: unexpected tag or length'')
   \<and> load_key ex_BER ex_PEM ex_registry [0x30, 5, 1]
      = Inl (Decoding_Error ''X.509 public key decoding failed'')
   \<and> read_SubjectPublicKeyInfo ex_BER ex_PEM (ex_spki [1, 2, 3] [] [])
      = Inr (\<lparr>oid = [1, 2, 3], parameters = []\<rparr>, [])
   \<and> load_key ex_BER ex_PEM ex_registry (ex_spki [1, 2, 3] [] [])
      = Inl (Decoding_Error ''X.509 public key decoding failed'')
   \<and> read_SubjectPublicKeyInfo ex_BER ex_PEM (ex_spki [1, 2, 9] [] [7])
      = Inr (\<lparr>oid = [1, 2, 9], parameters = []\<rparr>, [7])
   \<and> OIDS_lookup ex_registry [1, 2, 9] = []
   \<and> load_key ex_BER ex_PEM ex_registry (ex_spki [1, 2, 9] [] [7])
      = Inl (Decoding_Error ''X.509 public key decoding failed'')
   \<and> read_SubjectPublicKeyInfo ex_BER ex_PEM (ex_spki [1, 2, 4] [] [7])
      = Inr (\<lparr>oid = [1, 2, 4], parameters = []\<rparr>, [7])
   \<and> get_public_key ex_registry (OIDS_lookup ex_registry [1, 2, 4]) = None
   \<and> load_key ex_BER ex_PEM ex_registry (ex_spki [1, 2, 4] [] [7])
      = Inl (Decoding_Error ''X.509 public key decoding failed'')
   \<and> read_SubjectPublicKeyInfo ex_BER ex_PEM (ex_spki [1, 2, 5] [] [7])
      = Inr (\<lparr>oid = [1, 2, 5], parameters = []\<rparr>, [7])
   \<and> get_public_key ex_registry (OIDS_lookup ex_registry [1, 2, 5])
      = Some ((ex_key [] [])\<lparr>algo_name := ''EX3'', x509_decoder := None\<rparr>)
   \<and> load_key ex_BER ex_PEM ex_registry (ex_spki [1, 2, 5] [] [7])
      = Inl (Decoding_Error ''X.509 public key decoding failed'')
   \<and> read_SubjectPublicKeyInfo ex_BER ex_PEM (ex_spki [1, 2, 3] [0xFF] [7])
      = Inr (\<lparr>oid = [1, 2, 3], parameters = [0xFF]\<rparr>, [7])
   \<and> get_public_key ex_registry (OIDS_lookup ex_registry [1, 2, 3]) = Some (ex_key [] [])
   \<and> decoder_alg_id ex_decoder \<lparr>oid = [1, 2, 3], parameters = [0xFF]\<rparr> (key_state (ex_key [] []))
      = Inl (Decoding_Error ''bad parameters'')
   \<and> load_key ex_BER ex_PEM ex_registry (ex_spki [1, 2, 3] [0xFF] [7])
      = Inl (Decoding_Error ''X.509 public key decoding failed'')
   \<and> read_SubjectPublicKeyInfo ex_BER ex_PEM (ex_spki [1, 2, 3] [] [0xFF])
      = Inr (\<lparr>oid = [1, 2, 3], parameters = []\<rparr>, [0xFF])
   \<and> decoder_alg_id ex_decoder \<lparr>oid = [1, 2, 3], parameters = []\<rparr> (key_state (ex_key [] []))
      = Inr ([], [])
   \<and> decoder_key_bits ex_decoder [0xFF] ([], []) = Inl (Decoding_Error ''bad key material'')
   \<and> load_key ex_BER ex_PEM ex_registry (ex_spki [1, 2, 3] [] [0xFF])
      = Inl (Decoding_Error ''X.509 public key decoding failed'')
   \<and> read_SubjectPublicKeyInfo ex_BER_other ex_PEM [0x30, 9, 0x30, 5, 0x06, 3, 1, 2, 3, 0x03, 0]
      = Inl (Other_Exception ''BER: bad bit string'')
   \<and> load_key ex_BER_other ex_PEM ex_registry [0x30, 9, 0x30, 5, 0x06, 3, 1, 2, 3, 0x03, 0]
      = Inl (Other_Exception ''BER: bad bit string'')
   \<and> decoder_key_bits ex_decoder_other [0xFF] ([], [])
      = Inl (Other_Exception ''bad key material'')
   \<and> load_key ex_BER ex_PEM ex_registry_other (ex_spki [1, 2, 3] [] [0xFF])
      = Inl (Other_Exception ''bad key material'')"
proof -
  note eval = read_SubjectPublicKeyInfo_def decode_SubjectPublicKeyInfo_def verify_end_def
    end_cons_def ex_defs
    ex_BER_other_def ex_decoder_other_def ex_registry_other_def
  have r1: "read_SubjectPublicKeyInfo ex_BER ex_PEM [0x30, 5, 1]
      = Inl (Decoding_Error ''BER: unexpected tag or length'')"
    by (simp add: eval)
  have r2: "read_SubjectPublicKeyInfo ex_BER ex_PEM (ex_spki [1, 2, 3] [] [])
      = Inr (\<lparr>oid = [1, 2, 3], parameters = []\<rparr>, [])"
    by (simp add: eval)
  have r3: "read_SubjectPublicKeyInfo ex_BER ex_PEM (ex_spki [1, 2, 9] [] [7])
      = Inr (\<lparr>oid = [1, 2, 9], parameters = []\<rparr>, [7])"
    by (simp add: eval)
  have r4: "read_SubjectPublicKeyInfo ex_BER ex_PEM (ex_spki [1, 2, 4] [] [7])
      = Inr (\<lparr>oid = [1, 2, 4], parameters = []\<rparr>, [7])"
    by (simp add: eval)
  have r5: "read_SubjectPublicKeyInfo ex_BER ex_PEM (ex_spki [1, 2, 5] [] [7])
      = Inr (\<lparr>oid = [1, 2, 5], parameters = []\<rparr>, [7])"
    by (simp add: eval)
  have r6: "read_SubjectPublicKeyInfo ex_BER ex_PEM (ex_spki [1, 2, 3] [0xFF] [7])
      = Inr (\<lparr>oid = [1, 2, 3], parameters = [0xFF]\<rparr>, [7])"
    by (simp add: eval)
  have r7: "read_SubjectPublicKeyInfo ex_BER ex_PEM (ex_spki [1, 2, 3] [] [0xFF])
      = Inr (\<lparr>oid = [1, 2, 3], parameters = []\<rparr>, [0xFF])"
    by (simp add: eval)
  have o3: "OIDS_lookup ex_registry [1, 2, 9] = []"
    by (simp add: ex_registry_def)
  have g4: "get_public_key ex_registry (OIDS_lookup ex_registry [1, 2, 4]) = None"
    by (simp add: ex_registry_def)
  have g5: "get_public_key ex_registry (OIDS_lookup ex_registry [1, 2, 5])
      = Some ((ex_key [] [])\<lparr>algo_name := ''EX3'', x509_decoder := None\<rparr>)"
    by (simp add: ex_registry_def)
  have g6: "get_public_key ex_registry (OIDS_lookup ex_registry [1, 2, 3]) = Some (ex_key [] [])"
    by (simp add: ex_registry_def)
  have a6: "decoder_alg_id ex_decoder \<lparr>oid = [1, 2, 3], parameters = [0xFF]\<rparr>
      (key_state (ex_key [] [])) = Inl (Decoding_Error ''bad parameters'')"
    by (simp add: ex_decoder_def)
  have a7: "decoder_alg_id ex_decoder \<lparr>oid = [1, 2, 3], parameters = []\<rparr>
      (key_state (ex_key [] [])) = Inr ([], [])"
    by (simp add: ex_decoder_def ex_key_def)
  have b7: "decoder_key_bits ex_decoder [0xFF] ([], []) = Inl (Decoding_Error ''bad key material'')"
    by (simp add: ex_decoder_def)
  note t = load_key_uniform_failure [where B = ex_BER and P = ex_PEM and R = ex_registry]
  note after_read = t [THEN conjunct2, THEN conjunct1, rule_format]
  note with_key = after_read [THEN conjunct2, THEN conjunct2, THEN conjunct2, rule_format]
  note with_decoder = with_key [THEN conjunct2, rule_format]
  have c1: "load_key ex_BER ex_PEM ex_registry [0x30, 5, 1]
      = Inl (Decoding_Error ''X.509 public key decoding failed'')"
    by (rule t [THEN conjunct1, rule_format, OF r1])
  have c2: "load_key ex_BER ex_PEM ex_registry (ex_spki [1, 2, 3] [] [])
      = Inl (Decoding_Error ''X.509 public key decoding failed'')"
    by (rule after_read [OF r2, THEN conjunct1, rule_format]) simp
  have c3: "load_key ex_BER ex_PEM ex_registry (ex_spki [1, 2, 9] [] [7])
      = Inl (Decoding_Error ''X.509 public key decoding failed'')"
    by (rule after_read [OF r3, THEN conjunct2, THEN conjunct1, rule_format]) (simp add: ex_registry_def)
  have c4: "load_key ex_BER ex_PEM ex_registry (ex_spki [1, 2, 4] [] [7])
      = Inl (Decoding_Error ''X.509 public key decoding failed'')"
    by (rule after_read [OF r4, THEN conjunct2, THEN conjunct2, THEN conjunct1, rule_format])
      (simp add: ex_registry_def)
  have c5: "load_key ex_BER ex_PEM ex_registry (ex_spki [1, 2, 5] [] [7])
      = Inl (Decoding_Error ''X.509 public key decoding failed'')"
    by (rule with_key [OF r5, THEN conjunct1, rule_format,
          where key_obj = "(ex_key [] [])\<lparr>algo_name := ''EX3'', x509_decoder := None\<rparr>"])
      (simp_all add: ex_registry_def)
  have c6: "load_key ex_BER ex_PEM ex_registry (ex_spki [1, 2, 3] [0xFF] [7])
      = Inl (Decoding_Error ''X.509 public key decoding failed'')"
    by (rule with_decoder [OF r6, THEN conjunct1, rule_format,
          where key_obj = "ex_key [] []" and dec = ex_decoder and m = "''bad parameters''"])
      (simp_all add: ex_registry_def ex_key_def ex_decoder_def)
  have c7: "load_key ex_BER ex_PEM ex_registry (ex_spki [1, 2, 3] [] [0xFF])
      = Inl (Decoding_Error ''X.509 public key decoding failed'')"
    by (rule with_decoder [OF r7, THEN conjunct2, rule_format,
          where key_obj = "ex_key [] []" and dec = ex_decoder and m = "''bad key material''"
            and ?s1.0 = "([], [])"])
      (simp_all add: ex_registry_def ex_key_def ex_decoder_def)
  have r8: "read_SubjectPublicKeyInfo ex_BER_other ex_PEM
        [0x30, 9, 0x30, 5, 0x06, 3, 1, 2, 3, 0x03, 0]
      = Inl (Other_Exception ''BER: bad bit string'')"
    by (simp add: eval)
  have c8: "load_key ex_BER_other ex_PEM ex_registry [0x30, 9, 0x30, 5, 0x06, 3, 1, 2, 3, 0x03, 0]
      = Inl (Other_Exception ''BER: bad bit string'')"
    by (rule load_key_uniform_failure [where B = ex_BER_other and P = ex_PEM and R = ex_registry,
          THEN conjunct2, THEN conjunct2, THEN conjunct2, THEN conjunct1, rule_format])
      (simp add: r8)
  have b9: "decoder_key_bits ex_decoder_other [0xFF] ([], [])
      = Inl (Other_Exception ''bad key material'')"
    by (simp add: ex_decoder_other_def)
  have c9: "load_key ex_BER ex_PEM ex_registry_other (ex_spki [1, 2, 3] [] [0xFF])
      = Inl (Other_Exception ''bad key material'')"
    by (rule load_key_uniform_failure [where B = ex_BER and P = ex_PEM and R = ex_registry_other,
          THEN conjunct2, THEN conjunct2, THEN conjunct2, THEN conjunct2, rule_format,
          where a = "\<lparr>oid = [1, 2, 3], parameters = []\<rparr>" and bits = "[0xFF]"
            and key_obj = "(ex_key [] [])\<lparr>x509_decoder := Some ex_decoder_other\<rparr>"
            and dec = ex_decoder_other])
      (simp add: eval)
  show ?thesis
    by (intro conjI r1 r2 r3 r4 r5 r6 r7 o3 g4 g5 g6 a6 a7 b7 c1 c2 c3 c4 c5 c6 c7 r8 c8 b9 c9)
qed








section \<open>Properties of copying a key\<close>








end
